theory Spec2Isabelle
  imports Complex_Main "HOL-Library.Word"
begin

unbundle bit_operations_syntax

section \<open>Python and Qt primitives used by the annotation code\<close>

text \<open>
  The page in \<^verbatim>\<open>src/medical_app.py\<close> keeps its annotation state in module
  globals and mutates them from Qt event handlers. The model threads that state
  through every handler. Scene coordinates are Qt \<^verbatim>\<open>qreal\<close> values; they are
  modelled as exact reals, so comparisons are exact and the rounding of floating
  point arithmetic is not part of the model. The graphics scene, its items and the
  message boxes are not part of the state: a handler is modelled by what it does to
  the globals and to the three drawing attributes of the page.
\<close>

datatype py_error = IndexError | ValueError | TypeError | ZeroDivisionError | CvError

text \<open>\<^verbatim>\<open>xs[i]\<close>: a negative index counts from the end, an index outside the list raises.\<close>

definition list_index :: "'a list \<Rightarrow> int \<Rightarrow> py_error + 'a" where
  "list_index xs i =
     (if 0 \<le> i \<and> i < int (length xs) then Inr (xs ! nat i)
      else if i < 0 \<and> - int (length xs) \<le> i then Inr (xs ! nat (int (length xs) + i))
      else Inl IndexError)"

text \<open>\<^verbatim>\<open>xs[:k]\<close>: a negative stop counts from the end, and the slice never raises.\<close>

definition slice_to :: "'a list \<Rightarrow> int \<Rightarrow> 'a list" where
  "slice_to xs k = (if k < 0 then take (nat (int (length xs) + k)) xs else take (nat k) xs)"

text \<open>\<^verbatim>\<open>xs.remove(x)\<close>: drops the first element equal to \<open>x\<close>, raises when there is none.\<close>

definition list_remove :: "'a \<Rightarrow> 'a list \<Rightarrow> py_error + 'a list" where
  "list_remove x xs = (if x \<in> set xs then Inr (remove1 x xs) else Inl ValueError)"

type_synonym point = "real \<times> real"

text \<open>A stored rectangle is the tuple \<^verbatim>\<open>(x1, y1, x2, y2, name)\<close>.\<close>

type_synonym rect = "real \<times> real \<times> real \<times> real \<times> string"

fun rect_name :: "rect \<Rightarrow> string" where
  "rect_name (x1, y1, x2, y2, name) = name"

record qrectf =
  qx :: real
  qy :: real
  qwidth :: real
  qheight :: real

text \<open>\<^verbatim>\<open>QRectF(topLeft, bottomRight)\<close> and \<^verbatim>\<open>QRectF.normalized()\<close> of Qt.\<close>

definition QRectF :: "point \<Rightarrow> point \<Rightarrow> qrectf" where
  "QRectF p q = \<lparr>qx = fst p, qy = snd p, qwidth = fst q - fst p, qheight = snd q - snd p\<rparr>"

definition normalized :: "qrectf \<Rightarrow> qrectf" where
  "normalized r =
     (let r1 = (if qwidth r < 0 then r\<lparr>qx := qx r + qwidth r, qwidth := - qwidth r\<rparr> else r)
      in (if qheight r1 < 0 then r1\<lparr>qy := qy r1 + qheight r1, qheight := - qheight r1\<rparr> else r1))"

section \<open>The annotation state and its handlers\<close>

record page =
  rectangles :: "rect list"
  selected_rectangle :: "rect option"
  image_loaded :: bool
  img_original_size :: "nat \<times> nat"
  img_resized_size :: "nat \<times> nat"
  rectangle_history :: "rect list list"
  current_history_index :: int
  start_pos :: "point option"
  current_rect :: "qrectf option"
  drawing :: bool

text \<open>The module-level globals as the file initialises them (lines 28-47).\<close>

definition module_globals :: page where
  "module_globals =
     \<lparr>rectangles = [], selected_rectangle = None, image_loaded = False,
      img_original_size = (0, 0), img_resized_size = (1260, 900),
      rectangle_history = [], current_history_index = - 1,
      start_pos = None, current_rect = None, drawing = False\<rparr>"

text \<open>\<^verbatim>\<open>ECGAnalysisPage.__init__\<close>: the drawing variables and the first snapshot.\<close>

definition page_init :: "page \<Rightarrow> page" where
  "page_init g =
     g\<lparr>start_pos := None, current_rect := None, drawing := False,
       rectangle_history := [if rectangles g = [] then [] else rectangles g],
       current_history_index := 0\<rparr>"

definition initial_page :: page where
  "initial_page = page_init module_globals"

text \<open>\<^verbatim>\<open>int(x)\<close> on a float truncates towards zero.\<close>

definition py_int :: "real \<Rightarrow> int" where
  "py_int r = (if 0 \<le> r then \<lfloor>r\<rfloor> else \<lceil>r\<rceil>)"

text \<open>
  \<^verbatim>\<open>open_image\<close> for a file that was chosen and decoded to a \<open>width\<close> by \<open>height\<close>
  raster: the original size is recorded and the raster is resized to width 1260.
  \<^verbatim>\<open>cv2.resize\<close> raises on a target height of 0, before the display size and the
  loaded flag are set. The rectangles and the history are not touched.
\<close>

definition open_image :: "nat \<Rightarrow> nat \<Rightarrow> page \<Rightarrow> py_error + page" where
  "open_image width height s =
     (if height = 0 then Inl ZeroDivisionError
      else let aspect_ratio = real width / real height in
        if aspect_ratio = 0 then Inl ZeroDivisionError
        else let new_width = 1260; new_height = py_int (real new_width / aspect_ratio) in
          if new_height \<le> 0 then Inl CvError
          else
            Inr (s\<lparr>img_original_size := (width, height),
                   img_resized_size := (new_width, nat new_height),
                   image_loaded := True\<rparr>))"

definition delete_selected :: "page \<Rightarrow> py_error + page" where
  "delete_selected s =
     (case selected_rectangle s of
        None \<Rightarrow> Inr s
      | Some sel \<Rightarrow>
          if sel \<in> set (rectangles s) then
            (case list_remove sel (rectangles s) of
               Inl e \<Rightarrow> Inl e
             | Inr rs \<Rightarrow> Inr (s\<lparr>rectangles := rs, selected_rectangle := None\<rparr>))
          else Inr s)"

definition add_to_history :: "page \<Rightarrow> page" where
  "add_to_history s =
     (let hist = slice_to (rectangle_history s) (current_history_index s + 1);
          hist' = hist @ [rectangles s]
      in s\<lparr>rectangle_history := hist', current_history_index := int (length hist') - 1\<rparr>)"

definition undo_action :: "page \<Rightarrow> py_error + page" where
  "undo_action s =
     (if current_history_index s > 0 then
        (let i = current_history_index s - 1 in
         case list_index (rectangle_history s) i of
           Inl e \<Rightarrow> Inl e
         | Inr snapshot \<Rightarrow> Inr (s\<lparr>current_history_index := i, rectangles := snapshot\<rparr>))
      else Inr s)"

definition redo_action :: "page \<Rightarrow> py_error + page" where
  "redo_action s =
     (if current_history_index s < int (length (rectangle_history s)) - 1 then
        (let i = current_history_index s + 1 in
         case list_index (rectangle_history s) i of
           Inl e \<Rightarrow> Inl e
         | Inr snapshot \<Rightarrow> Inr (s\<lparr>current_history_index := i, rectangles := snapshot\<rparr>))
      else Inr s)"

subsection \<open>The event filter\<close>

datatype button = LeftButton | RightButton

text \<open>
  The name dialog is modal; what the user does with it is part of the release event:
  accepted with the text of the line edit, or rejected.
\<close>

datatype dialog_result = Accepted string | Rejected

datatype event =
    MouseButtonPress button point
  | MouseMove point
  | MouseButtonRelease button point dialog_result

fun contains_point :: "rect \<Rightarrow> point \<Rightarrow> bool" where
  "contains_point (x1, y1, x2, y2, name) (px, py) = (x1 \<le> px \<and> px \<le> x2 \<and> y1 \<le> py \<and> py \<le> y2)"

text \<open>
  The loop \<^verbatim>\<open>for rect in rectangles: if (x1 <= x <= x2 and y1 <= y <= y2): ...
  return True\<close> of the press branch: it walks the list in insertion order and stops at
  the first rectangle that contains the point.
\<close>

fun hit_test :: "rect list \<Rightarrow> point \<Rightarrow> rect option" where
  "hit_test [] p = None"
| "hit_test (r # rs) p = (if contains_point r p then Some r else hit_test rs p)"

text \<open>The tuple appended on release: \<^verbatim>\<open>(rect.x(), rect.y(), rect.x() + rect.width(), rect.y() + rect.height(), name)\<close>.\<close>

definition rect_tuple :: "qrectf \<Rightarrow> string \<Rightarrow> rect" where
  "rect_tuple r name = (qx r, qy r, qx r + qwidth r, qy r + qheight r, name)"

definition press_left :: "point \<Rightarrow> page \<Rightarrow> py_error + page" where
  "press_left scene_pos s =
     (case hit_test (rectangles s) scene_pos of
        Some r \<Rightarrow>
          (case list_remove r (rectangles s) of
             Inl e \<Rightarrow> Inl e
           | Inr rs \<Rightarrow> Inr (add_to_history (s\<lparr>rectangles := rs\<rparr>)))
      | None \<Rightarrow>
          Inr (s\<lparr>start_pos := Some scene_pos, drawing := True,
                 current_rect := Some (QRectF scene_pos scene_pos)\<rparr>))"

definition mouse_move :: "point \<Rightarrow> page \<Rightarrow> py_error + page" where
  "mouse_move end_pos s =
     (case current_rect s of
        None \<Rightarrow> Inr s
      | Some item \<Rightarrow>
          (case start_pos s of
             None \<Rightarrow> Inl TypeError
           | Some sp \<Rightarrow> Inr (s\<lparr>current_rect := Some (normalized (QRectF sp end_pos))\<rparr>)))"

definition release_left :: "point \<Rightarrow> dialog_result \<Rightarrow> page \<Rightarrow> py_error + page" where
  "release_left end_pos dlg s =
     (let s1 = s\<lparr>drawing := False\<rparr> in
      case current_rect s1 of
        None \<Rightarrow> Inr s1
      | Some item \<Rightarrow>
          (case start_pos s1 of
             None \<Rightarrow> Inl TypeError
           | Some sp \<Rightarrow>
               (let rect = normalized (QRectF sp end_pos);
                    s2 = (case dlg of
                            Accepted name \<Rightarrow>
                              if name \<noteq> [] then
                                add_to_history (s1\<lparr>rectangles := rectangles s1 @ [rect_tuple rect name]\<rparr>)
                              else s1
                          | Rejected \<Rightarrow> s1)
                in Inr (s2\<lparr>current_rect := None, start_pos := None\<rparr>))))"

text \<open>
  \<^verbatim>\<open>eventFilter\<close> for an event on the viewport. Every event that matches no branch
  goes to the base class and leaves the state alone.
\<close>

fun eventFilter :: "event \<Rightarrow> page \<Rightarrow> py_error + page" where
  "eventFilter (MouseButtonPress b p) s =
     (if image_loaded s \<and> b = LeftButton then press_left p s else Inr s)"
| "eventFilter (MouseMove p) s =
     (if image_loaded s \<and> drawing s then mouse_move p s else Inr s)"
| "eventFilter (MouseButtonRelease b p dlg) s =
     (if image_loaded s \<and> b = LeftButton \<and> drawing s then release_left p dlg s else Inr s)"

subsection \<open>Sequences of user operations\<close>

datatype operation =
    Event event
  | Undo
  | Redo
  | DeleteSelected

fun apply_operation :: "operation \<Rightarrow> page \<Rightarrow> py_error + page" where
  "apply_operation (Event e) s = eventFilter e s"
| "apply_operation Undo s = undo_action s"
| "apply_operation Redo s = redo_action s"
| "apply_operation DeleteSelected s = delete_selected s"

text \<open>An uncaught exception ends the run.\<close>

fun run :: "operation list \<Rightarrow> page \<Rightarrow> py_error + page" where
  "run [] s = Inr s"
| "run (x # xs) s = (case apply_operation x s of Inl e \<Rightarrow> Inl e | Inr s' \<Rightarrow> run xs s')"

text \<open>
  A completed draw gesture: a left press at \<open>p\<close>, a left release at \<open>q\<close>, and the name
  dialog accepted with \<open>name\<close>.
\<close>

definition draw :: "point \<Rightarrow> point \<Rightarrow> string \<Rightarrow> operation list" where
  "draw p q name =
     [Event (MouseButtonPress LeftButton p), Event (MouseButtonRelease LeftButton q (Accepted name))]"

text \<open>The page once an image of the given sizes has been loaded and nothing drawn yet.\<close>

definition loaded_page :: "nat \<times> nat \<Rightarrow> nat \<times> nat \<Rightarrow> page" where
  "loaded_page original resized =
     initial_page\<lparr>img_original_size := original, img_resized_size := resized, image_loaded := True\<rparr>"

section \<open>Coordinate conversion before cropping\<close>

text \<open>
  The same four assignments stand in \<^verbatim>\<open>save_all_areas\<close>,
  \<^verbatim>\<open>ObservationDialog.on_selection_changed\<close>, \<^verbatim>\<open>ObservationDialog.on_save\<close> and
  \<^verbatim>\<open>DigitalizeDialog.preview_selected\<close>:
  \<^verbatim>\<open>x1_resized = int(x1 * img_resized_size[0] / img_original_size[1])\<close>,
  \<^verbatim>\<open>y1_resized = int(y1 * img_resized_size[1] / img_original_size[0])\<close>, and the same for
  \<open>x2\<close> and \<open>y2\<close>. The sizes are \<open>(width, height)\<close> pairs, so index 0 is \<open>fst\<close> and
  index 1 is \<open>snd\<close>. Dividing by a zero size raises.
\<close>

definition convert_coordinates :: "page \<Rightarrow> rect \<Rightarrow> py_error + (int \<times> int \<times> int \<times> int)" where
  "convert_coordinates s rect =
     (case rect of (x1, y1, x2, y2, name) \<Rightarrow>
        if snd (img_original_size s) = 0 \<or> fst (img_original_size s) = 0 then Inl ZeroDivisionError
        else
          (let x1_resized = py_int (x1 * real (fst (img_resized_size s)) / real (snd (img_original_size s)));
               y1_resized = py_int (y1 * real (snd (img_resized_size s)) / real (fst (img_original_size s)));
               x2_resized = py_int (x2 * real (fst (img_resized_size s)) / real (snd (img_original_size s)));
               y2_resized = py_int (y2 * real (snd (img_resized_size s)) / real (fst (img_original_size s)))
           in Inr (x1_resized, y1_resized, x2_resized, y2_resized)))"

section \<open>Rasters and the OpenCV primitives the code calls\<close>

text \<open>
  A NumPy image array of shape \<open>(rows, cols)\<close>, read as \<^verbatim>\<open>a[y, x]\<close>. A colour raster
  holds the three 8-bit channels of a pixel, a mask or a grey raster one 8-bit value.
\<close>

record 'p raster =
  rows :: nat
  cols :: nat
  pix :: "nat \<Rightarrow> nat \<Rightarrow> 'p"

type_synonym channels = "8 word \<times> 8 word \<times> 8 word"

text \<open>\<^verbatim>\<open>cv2.inRange(src, lowerb, upperb)\<close>: 255 where every channel lies within its bounds, else 0.\<close>

definition inRange :: "channels raster \<Rightarrow> channels \<Rightarrow> channels \<Rightarrow> 8 word raster" where
  "inRange src lowerb upperb =
     \<lparr>rows = rows src, cols = cols src,
      pix = (\<lambda>y x. case (pix src y x, lowerb, upperb) of
                ((c0, c1, c2), (l0, l1, l2), (u0, u1, u2)) \<Rightarrow>
                  if l0 \<le> c0 \<and> c0 \<le> u0 \<and> l1 \<le> c1 \<and> c1 \<le> u1 \<and> l2 \<le> c2 \<and> c2 \<le> u2
                  then 255 else 0)\<rparr>"

text \<open>\<^verbatim>\<open>cv2.bitwise_not(mask)\<close>.\<close>

definition bitwise_not :: "8 word raster \<Rightarrow> 8 word raster" where
  "bitwise_not m = \<lparr>rows = rows m, cols = cols m, pix = (\<lambda>y x. NOT (pix m y x))\<rparr>"

text \<open>
  \<^verbatim>\<open>cv2.bitwise_and(a, b, mask=m)\<close> into a fresh array: the conjunction where the
  mask is non-zero, zero elsewhere.
\<close>

definition bitwise_and_mask :: "channels raster \<Rightarrow> channels raster \<Rightarrow> 8 word raster \<Rightarrow> channels raster" where
  "bitwise_and_mask a b m =
     \<lparr>rows = rows a, cols = cols a,
      pix = (\<lambda>y x. if pix m y x \<noteq> 0 then
                (case (pix a y x, pix b y x) of
                   ((a0, a1, a2), (b0, b1, b2)) \<Rightarrow> (a0 AND b0, a1 AND b1, a2 AND b2))
              else (0, 0, 0))\<rparr>"

text \<open>\<^verbatim>\<open>np.full_like(a, v)\<close>.\<close>

definition full_like :: "channels raster \<Rightarrow> 8 word \<Rightarrow> channels raster" where
  "full_like a v = \<lparr>rows = rows a, cols = cols a, pix = (\<lambda>y x. (v, v, v))\<rparr>"

text \<open>The masked assignment \<^verbatim>\<open>a[m == k] = v\<close>, the scalar broadcast to the three channels.\<close>

definition assign_where :: "channels raster \<Rightarrow> 8 word raster \<Rightarrow> 8 word \<Rightarrow> 8 word \<Rightarrow> channels raster" where
  "assign_where a m k v =
     \<lparr>rows = rows a, cols = cols a,
      pix = (\<lambda>y x. if pix m y x = k then (v, v, v) else pix a y x)\<rparr>"

text \<open>\<^verbatim>\<open>cv2.add\<close> on 8-bit channels saturates at 255.\<close>

definition saturate_add :: "8 word \<Rightarrow> 8 word \<Rightarrow> 8 word" where
  "saturate_add a b = (if unat a + unat b > 255 then 255 else a + b)"

definition cv_add :: "channels raster \<Rightarrow> channels raster \<Rightarrow> channels raster" where
  "cv_add a b =
     \<lparr>rows = rows a, cols = cols a,
      pix = (\<lambda>y x. case (pix a y x, pix b y x) of
                ((a0, a1, a2), (b0, b1, b2)) \<Rightarrow>
                  (saturate_add a0 b0, saturate_add a1 b1, saturate_add a2 b2))\<rparr>"

text \<open>\<^verbatim>\<open>cv2.threshold(gray, thresh, maxval, cv2.THRESH_BINARY_INV)\<close>.\<close>

definition threshold_binary_inv :: "8 word raster \<Rightarrow> 8 word \<Rightarrow> 8 word \<Rightarrow> 8 word raster" where
  "threshold_binary_inv gray thresh maxval =
     \<lparr>rows = rows gray, cols = cols gray,
      pix = (\<lambda>y x. if pix gray y x > thresh then 0 else maxval)\<rparr>"

section \<open>Background separation\<close>

text \<open>
  \<^verbatim>\<open>ECGAnalysisPage.remove_background\<close>, lines 999-1022. The raster \<open>hsv\<close> is what
  \<^verbatim>\<open>cv2.cvtColor(img, cv2.COLOR_BGR2HSV)\<close> returned; the colour conversion is OpenCV's
  and is an input here, so every statement holds for any conversion.
\<close>

definition remove_background :: "channels raster \<Rightarrow> channels raster \<Rightarrow> channels raster" where
  "remove_background hsv img =
     (let lower_black = (0, 0, 0);
          upper_black = (180, 255, 220);
          mask_black = inRange hsv lower_black upper_black;
          white_background = full_like img 255;
          mask_inv = bitwise_not mask_black;
          black_on_white = bitwise_and_mask img img mask_black;
          black_on_white = assign_where black_on_white mask_black 255 0;
          non_black_on_white = bitwise_and_mask white_background white_background mask_inv;
          preprocessed_img = cv_add black_on_white non_black_on_white
      in preprocessed_img)"

text \<open>
  The masking at the start of \<^verbatim>\<open>DigitalizeDialog.digitalize_selected\<close>, lines 649-652:
  \<^verbatim>\<open>mask = cv2.inRange(hsv, ...); result = cv2.bitwise_and(img, img, mask=mask);
  result[mask == 0] = 255\<close>.
\<close>

definition digitalize_selected_result :: "channels raster \<Rightarrow> channels raster \<Rightarrow> channels raster" where
  "digitalize_selected_result hsv img =
     (let mask = inRange hsv (0, 0, 0) (180, 255, 220);
          result = bitwise_and_mask img img mask;
          result = assign_where result mask 0 255
      in result)"

section \<open>Signal extraction\<close>

text \<open>
  Both digitizers work on a mask \<open>binary\<close> that \<^verbatim>\<open>cv2.threshold\<close> made from a grey
  raster (\<^verbatim>\<open>digitalize_lead\<close> with threshold 1, \<^verbatim>\<open>digitalize_selected\<close> with
  threshold 127, both inverted with maximum 255); the foreground of the mask is the
  value 255. The loops are modelled on the mask.

  \<^verbatim>\<open>np.where(binary[:, x] == 255)[0]\<close>: the rows of column \<open>x\<close> that hold 255, ascending.
\<close>

definition column_indices :: "8 word raster \<Rightarrow> nat \<Rightarrow> nat list" where
  "column_indices binary x = filter (\<lambda>y. pix binary y x = 255) [0..<rows binary]"

definition max_amplitude :: real where
  "max_amplitude = 1"

definition min_amplitude :: real where
  "min_amplitude = - 1"

definition time_scale :: real where
  "time_scale = 1 / 100"

text \<open>\<^verbatim>\<open>(y_indices[0] + y_indices[-1]) // 2\<close>, used on a non-empty array only.\<close>

definition middle_row :: "nat list \<Rightarrow> nat" where
  "middle_row y_indices = (hd y_indices + last y_indices) div 2"

text \<open>
  The column loop of \<^verbatim>\<open>ECGAnalysisPage.digitalize_lead\<close>, lines 1076-1091, over the
  remaining columns, with the two output lists as they grow.
\<close>

fun lead_columns :: "8 word raster \<Rightarrow> nat list \<Rightarrow> real list \<times> real list \<Rightarrow> real list \<times> real list" where
  "lead_columns binary [] (signal_x, signal_y) = (signal_x, signal_y)"
| "lead_columns binary (x # xs) (signal_x, signal_y) =
     (let y_indices = column_indices binary x in
      if length y_indices > 0 then
        (let y = middle_row y_indices;
             normalized_y = max_amplitude - (max_amplitude - min_amplitude) * (real y / real (rows binary));
             time = real x * time_scale
         in lead_columns binary xs (signal_x @ [time], signal_y @ [normalized_y]))
      else lead_columns binary xs (signal_x, signal_y))"

text \<open>The rows written to the CSV file: \<^verbatim>\<open>zip(signal_x, signal_y)\<close>.\<close>

definition digitalize_lead :: "8 word raster \<Rightarrow> (real \<times> real) list" where
  "digitalize_lead binary =
     (case lead_columns binary [0..<cols binary] ([], []) of
        (signal_x, signal_y) \<Rightarrow> zip signal_x signal_y)"

text \<open>\<^verbatim>\<open>np.mean(points)\<close> of an integer array.\<close>

definition np_mean :: "nat list \<Rightarrow> real" where
  "np_mean points = real (sum_list points) / real (length points)"

text \<open>The column loop of \<^verbatim>\<open>DigitalizeDialog.digitalize_selected\<close>, lines 663-669.\<close>

fun selected_columns :: "8 word raster \<Rightarrow> nat list \<Rightarrow> nat list \<times> real list \<Rightarrow> nat list \<times> real list" where
  "selected_columns binary [] (signal_x, signal_y) = (signal_x, signal_y)"
| "selected_columns binary (x # xs) (signal_x, signal_y) =
     (let points = column_indices binary x in
      if length points > 0 then
        (let y = np_mean points
         in selected_columns binary xs (signal_x @ [x], signal_y @ [y]))
      else selected_columns binary xs (signal_x, signal_y))"

definition digitalize_selected :: "8 word raster \<Rightarrow> (nat \<times> real) list" where
  "digitalize_selected binary =
     (case selected_columns binary [0..<cols binary] ([], []) of
        (signal_x, signal_y) \<Rightarrow> zip signal_x signal_y)"

section \<open>Export file names\<close>





















section \<open>The history invariant\<close>

text \<open>
  What every handler keeps: no rectangle is ever selected (no statement of the file
  assigns one to \<^verbatim>\<open>selected_rectangle\<close>), the history position is a valid index, the
  snapshot there is the live list, and a pending draw gesture has its start point.
\<close>

definition store_inv :: "page \<Rightarrow> bool" where
  "store_inv s =
     (selected_rectangle s = None \<and> 0 \<le> current_history_index s \<and>
      current_history_index s < int (length (rectangle_history s)) \<and>
      rectangle_history s ! nat (current_history_index s) = rectangles s \<and>
      (drawing s \<and> current_rect s \<noteq> None \<longrightarrow> start_pos s \<noteq> None))"

section \<open>Derived descriptions and sample inputs\<close>

text \<open>
  The output entry of a column that holds a foreground pixel, written with the smallest
  and the largest foreground row of the column.
\<close>

definition lead_point :: "8 word raster \<Rightarrow> nat \<Rightarrow> real \<times> real" where
  "lead_point binary x =
     (real x * time_scale,
      max_amplitude - (max_amplitude - min_amplitude) *
        (real ((Min (set (column_indices binary x)) + Max (set (column_indices binary x))) div 2)
           / real (rows binary)))"

text \<open>A release is pending over a page that already holds a rectangle named \<open>lead\<close>.\<close>

definition pending_duplicate :: page where
  "pending_duplicate =
     \<lparr>rectangles = [(0, 0, 10, 10, ''lead'')],
      selected_rectangle = None, image_loaded = True,
      img_original_size = (2000, 1000), img_resized_size = (1260, 630),
      rectangle_history = [[], [(0, 0, 10, 10, ''lead'')]],
      current_history_index = 1, start_pos = Some (20, 20),
      current_rect = Some (QRectF (20, 20) (20, 20)), drawing = True\<rparr>"

text \<open>Two overlapping rectangles, \<open>first\<close> drawn before \<open>second\<close>.\<close>

definition two_overlapping :: page where
  "two_overlapping =
     \<lparr>rectangles = [(0, 0, 10, 10, ''first''), (5, 5, 15, 15, ''second'')],
      selected_rectangle = None, image_loaded = True,
      img_original_size = (2000, 1000), img_resized_size = (1260, 630),
      rectangle_history =
        [[], [(0, 0, 10, 10, ''first'')], [(0, 0, 10, 10, ''first''), (5, 5, 15, 15, ''second'')]],
      current_history_index = 2, start_pos = None, current_rect = None, drawing = False\<rparr>"

text \<open>A 9 by 1 mask with foreground in rows 0, 1 and 8 of its only column.\<close>

definition three_pixel_column :: "8 word raster" where
  "three_pixel_column = \<lparr>rows = 9, cols = 1, pix = (\<lambda>y x. if y = 0 \<or> y = 1 \<or> y = 8 then 255 else 0)\<rparr>"

text \<open>A 2 by 2 mask without foreground, and a 4 by 3 mask whose only foreground pixel is at row 1, column 2.\<close>

definition blank_mask :: "8 word raster" where
  "blank_mask = \<lparr>rows = 2, cols = 2, pix = (\<lambda>y x. 0)\<rparr>"

definition single_pixel_mask :: "8 word raster" where
  "single_pixel_mask = \<lparr>rows = 4, cols = 3, pix = (\<lambda>y x. if y = 1 \<and> x = 2 then 255 else 0)\<rparr>"

text \<open>
  A one-pixel image of the grey colour (30, 30, 30) and its HSV form (0, 0, 30): a grey
  has hue 0, saturation 0 and its own level as value.
\<close>

definition grey_pixel_img :: "channels raster" where
  "grey_pixel_img = \<lparr>rows = 1, cols = 1, pix = (\<lambda>y x. (30, 30, 30))\<rparr>"

definition grey_pixel_hsv :: "channels raster" where
  "grey_pixel_hsv = \<lparr>rows = 1, cols = 1, pix = (\<lambda>y x. (0, 0, 30))\<rparr>"




section \<open>Properties of the annotation store\<close>

lemma store_inv_initial: "store_inv initial_page"
  by (simp add: store_inv_def initial_page_def page_init_def module_globals_def)

lemma store_inv_add_to_history:
  assumes "selected_rectangle s = None" "0 \<le> current_history_index s"
    "current_history_index s < int (length (rectangle_history s))"
    "drawing s \<and> current_rect s \<noteq> None \<longrightarrow> start_pos s \<noteq> None"
  shows "store_inv (add_to_history s)"
  using assms
  by (simp add: store_inv_def add_to_history_def slice_to_def Let_def nth_append min_def)

lemma store_inv_undo: "store_inv s \<Longrightarrow> \<exists>s'. undo_action s = Inr s' \<and> store_inv s'"
  by (auto simp: store_inv_def undo_action_def list_index_def Let_def)

lemma store_inv_redo: "store_inv s \<Longrightarrow> \<exists>s'. redo_action s = Inr s' \<and> store_inv s'"
  by (auto simp: store_inv_def redo_action_def list_index_def Let_def)

lemma store_inv_delete_selected: "store_inv s \<Longrightarrow> delete_selected s = Inr s"
  by (simp add: store_inv_def delete_selected_def)

text \<open>
  Were a rectangle of the list selected, \<^verbatim>\<open>delete_selected\<close> would remove it without
  a commit; with nothing selected it changes nothing, and that is the only case the
  handlers can reach.
\<close>

lemma delete_selected_without_commit:
  "selected_rectangle s = Some r \<Longrightarrow> r \<in> set (rectangles s) \<Longrightarrow>
     delete_selected s = Inr (s\<lparr>rectangles := remove1 r (rectangles s), selected_rectangle := None\<rparr>)"
  by (simp add: delete_selected_def list_remove_def)

lemma hit_test_mem: "hit_test rs p = Some r \<Longrightarrow> r \<in> set rs"
  by (induction rs) (auto split: if_splits)

lemma store_inv_press: "store_inv s \<Longrightarrow> \<exists>s'. press_left p s = Inr s' \<and> store_inv s'"
proof (cases "hit_test (rectangles s) p")
  case None
  assume "store_inv s"
  then show ?thesis using None by (simp add: press_left_def store_inv_def)
next
  case (Some r)
  assume inv: "store_inv s"
  have mem: "r \<in> set (rectangles s)" using Some by (rule hit_test_mem)
  have "store_inv (add_to_history (s\<lparr>rectangles := remove1 r (rectangles s)\<rparr>))"
    by (rule store_inv_add_to_history) (use inv in \<open>simp_all add: store_inv_def\<close>)
  then show ?thesis using Some mem by (simp add: press_left_def list_remove_def)
qed

lemma store_inv_move: "store_inv s \<Longrightarrow> drawing s \<Longrightarrow> \<exists>s'. mouse_move p s = Inr s' \<and> store_inv s'"
  by (auto simp: store_inv_def mouse_move_def split: option.splits)

lemma store_inv_release:
  assumes inv: "store_inv s" and dr: "drawing s"
  shows "\<exists>s'. release_left p dlg s = Inr s' \<and> store_inv s'"
proof (cases "current_rect s")
  case None
  then show ?thesis using inv by (simp add: release_left_def store_inv_def)
next
  case (Some item)
  then obtain sp where sp: "start_pos s = Some sp" using inv dr by (auto simp: store_inv_def)
  let ?s1 = "s\<lparr>drawing := False\<rparr>"
  have a: "store_inv (add_to_history (?s1\<lparr>rectangles := rectangles ?s1 @ [r]\<rparr>))" for r
    by (rule store_inv_add_to_history) (use inv in \<open>simp_all add: store_inv_def\<close>)
  have b: "store_inv t \<Longrightarrow> store_inv (t\<lparr>current_rect := None, start_pos := None\<rparr>)" for t
    by (simp add: store_inv_def)
  have c: "store_inv ?s1" using inv by (simp add: store_inv_def)
  show ?thesis using Some sp a b c
    by (cases dlg) (simp_all add: release_left_def Let_def)
qed

lemma store_inv_event: "store_inv s \<Longrightarrow> \<exists>s'. eventFilter e s = Inr s' \<and> store_inv s'"
  by (cases e) (auto simp: store_inv_press store_inv_move store_inv_release)


lemma store_inv_operation: "store_inv s \<Longrightarrow> \<exists>s'. apply_operation x s = Inr s' \<and> store_inv s'"
  by (cases x) (simp_all add: store_inv_event store_inv_undo store_inv_redo store_inv_delete_selected)

lemma store_inv_run: "store_inv s \<Longrightarrow> \<exists>s'. run ops s = Inr s' \<and> store_inv s'"
proof (induction ops arbitrary: s)
  case Nil
  then show ?case by simp
next
  case (Cons x xs)
  from store_inv_operation [OF Cons.prems, of x]
  obtain s1 where s1: "apply_operation x s = Inr s1" "store_inv s1" by blast
  from Cons.IH [OF s1(2)] show ?case using s1(1) by simp
qed

lemma store_inv_list_index:
  "store_inv s \<Longrightarrow> list_index (rectangle_history s) (current_history_index s) = Inr (rectangles s)"
  by (simp add: store_inv_def list_index_def)

text \<open>
  Claim C1. Start from the page as it is constructed, with or without an image loaded,
  and run any sequence of viewport events (which add a named rectangle on release and
  delete the clicked rectangle on press), undo, redo and delete-selected operations.
  No operation raises, and afterwards the live list \<^verbatim>\<open>rectangles\<close> is exactly
  \<^verbatim>\<open>rectangle_history[current_history_index]\<close>. Every prefix of a sequence is a
  sequence, so this holds after each operation. \<^verbatim>\<open>reset_workspace\<close> is not among the
  operations of the claim and is not covered.
\<close>

theorem live_list_is_current_snapshot:
  "\<exists>s. run ops (initial_page\<lparr>image_loaded := ld, img_original_size := osz, img_resized_size := rsz\<rparr>) = Inr s
      \<and> list_index (rectangle_history s) (current_history_index s) = Inr (rectangles s)"
proof -
  have "store_inv (initial_page\<lparr>image_loaded := ld, img_original_size := osz, img_resized_size := rsz\<rparr>)"
    using store_inv_initial by (simp add: store_inv_def)
  from store_inv_run [OF this, of ops] show ?thesis
    using store_inv_list_index by blast
qed

lemma redo_after_commit: "redo_action (add_to_history s) = Inr (add_to_history s)"
  by (simp add: redo_action_def add_to_history_def Let_def)

lemma run_append: "run (xs @ ys) s = (case run xs s of Inl e \<Rightarrow> Inl e | Inr s' \<Rightarrow> run ys s')"
  by (induction xs arbitrary: s) (auto split: sum.splits)

lemma run_draw:
  assumes "image_loaded s" "hit_test (rectangles s) p = None" "name \<noteq> []"
  shows "run (draw p q name) s =
     Inr ((add_to_history (s\<lparr>drawing := False, rectangles := rectangles s @ [rect_tuple (normalized (QRectF p q)) name]\<rparr>))
            \<lparr>current_rect := None, start_pos := None\<rparr>)"
  using assms by (simp add: draw_def press_left_def release_left_def Let_def add_to_history_def)

text \<open>
  Claim C2. With an image loaded, draw A, draw B, undo, draw C (each press landing
  outside the rectangles present, each name non-empty). The history is then the empty
  list, [A] and [A, C]: the snapshot [A, B] is gone. A redo at this point returns the
  state unchanged, so the live list and the history position stay as they are.
\<close>

theorem commit_after_undo_discards_redo:
  assumes "na \<noteq> []" and "nb \<noteq> []" and "nc \<noteq> []"
    and "\<not> contains_point (rect_tuple (normalized (QRectF pa qa)) na) pb"
    and "\<not> contains_point (rect_tuple (normalized (QRectF pa qa)) na) pc"
  shows "\<exists>s. run (draw pa qa na @ draw pb qb nb @ [Undo] @ draw pc qc nc) (loaded_page osz rsz) = Inr s
     \<and> rectangles s = [rect_tuple (normalized (QRectF pa qa)) na, rect_tuple (normalized (QRectF pc qc)) nc]
     \<and> rectangle_history s =
          [[], [rect_tuple (normalized (QRectF pa qa)) na],
           [rect_tuple (normalized (QRectF pa qa)) na, rect_tuple (normalized (QRectF pc qc)) nc]]
     \<and> current_history_index s = 2
     \<and> redo_action s = Inr s"
  using assms
  by (simp add: run_append run_draw loaded_page_def initial_page_def page_init_def module_globals_def
      add_to_history_def slice_to_def undo_action_def redo_action_def list_index_def Let_def)

theorem commit_after_undo_discards_redo_witness:
  "\<exists>s. run (draw (0, 0) (10, 10) ''A'' @ draw (20, 20) (30, 30) ''B'' @ [Undo] @ draw (40, 40) (50, 50) ''C'')
          (loaded_page (2000, 1000) (1260, 630)) = Inr s
     \<and> rectangles s = [(0, 0, 10, 10, ''A''), (40, 40, 50, 50, ''C'')]
     \<and> rectangle_history s = [[], [(0, 0, 10, 10, ''A'')], [(0, 0, 10, 10, ''A''), (40, 40, 50, 50, ''C'')]]
     \<and> current_history_index s = 2
     \<and> redo_action s = Inr s"
  using commit_after_undo_discards_redo [where na = "''A''" and nb = "''B''" and nc = "''C''"
      and pa = "(0, 0)" and qa = "(10, 10)" and pb = "(20, 20)" and qb = "(30, 30)"
      and pc = "(40, 40)" and qc = "(50, 50)" and osz = "(2000, 1000)" and rsz = "(1260, 630)"]
  by (simp add: rect_tuple_def normalized_def QRectF_def)

text \<open>
  Claim C3, as stated, fails: the release branch of the event filter checks only that
  the name is not empty. Drawing a second rectangle named \<open>lead\<close> succeeds; the list
  then holds two rectangles of that name and the history has a third snapshot.
\<close>

theorem duplicate_label_accepted:
  "run (draw (0, 0) (10, 10) ''lead'' @ draw (20, 20) (30, 30) ''lead'') (loaded_page (2000, 1000) (1260, 630)) =
     Inr \<lparr>rectangles = [(0, 0, 10, 10, ''lead''), (20, 20, 30, 30, ''lead'')],
          selected_rectangle = None, image_loaded = True,
          img_original_size = (2000, 1000), img_resized_size = (1260, 630),
          rectangle_history =
            [[], [(0, 0, 10, 10, ''lead'')], [(0, 0, 10, 10, ''lead''), (20, 20, 30, 30, ''lead'')]],
          current_history_index = 2, start_pos = None, current_rect = None, drawing = False\<rparr>"
  by (simp add: run_append run_draw loaded_page_def initial_page_def page_init_def module_globals_def
      add_to_history_def slice_to_def Let_def rect_tuple_def normalized_def QRectF_def)

text \<open>
  Claim C3, amended. For every page with a draw gesture pending and every non-empty
  label already carried by a rectangle of the list, releasing the button and accepting
  the dialog with that label succeeds: the new rectangle is appended after the
  existing ones, and the new list is committed as the snapshot after the current
  history position, which becomes the last one. There is no duplicate-label error.
\<close>

theorem duplicate_label_is_appended:
  assumes "image_loaded s" and "drawing s" and "current_rect s = Some item" and "start_pos s = Some sp"
    and "name \<noteq> []" and "name \<in> rect_name ` set (rectangles s)"
  shows "\<exists>s'. eventFilter (MouseButtonRelease LeftButton q (Accepted name)) s = Inr s'
     \<and> rectangles s' = rectangles s @ [rect_tuple (normalized (QRectF sp q)) name]
     \<and> rectangle_history s' =
          slice_to (rectangle_history s) (current_history_index s + 1) @ [rectangles s']
     \<and> current_history_index s' = int (length (rectangle_history s')) - 1"
  using assms by (simp add: release_left_def add_to_history_def Let_def)

theorem duplicate_label_is_appended_witness:
  "\<exists>s'. eventFilter (MouseButtonRelease LeftButton (30, 30) (Accepted ''lead'')) pending_duplicate = Inr s'
     \<and> rectangles s' = [(0, 0, 10, 10, ''lead''), (20, 20, 30, 30, ''lead'')]
     \<and> rectangle_history s' =
          [[], [(0, 0, 10, 10, ''lead'')], [(0, 0, 10, 10, ''lead''), (20, 20, 30, 30, ''lead'')]]
     \<and> current_history_index s' = 2"
  using duplicate_label_is_appended [where s = pending_duplicate and name = "''lead''" and q = "(30, 30)"
      and sp = "(20, 20)" and item = "QRectF (20, 20) (20, 20)"]
  by (auto simp: pending_duplicate_def slice_to_def rect_tuple_def normalized_def QRectF_def)

text \<open>
  Claim C7, as stated, fails. With \<open>first\<close> drawn before \<open>second\<close> and both containing
  the point (7, 7), a press there removes \<open>first\<close>, the earlier rectangle, and leaves
  \<open>second\<close>, the one drawn last.
\<close>

theorem first_drawn_rectangle_is_hit:
  "run (draw (0, 0) (10, 10) ''first'' @ draw (15, 15) (5, 5) ''second''
          @ [Event (MouseButtonPress LeftButton (7, 7))]) (loaded_page (2000, 1000) (1260, 630)) =
     Inr \<lparr>rectangles = [(5, 5, 15, 15, ''second'')],
          selected_rectangle = None, image_loaded = True,
          img_original_size = (2000, 1000), img_resized_size = (1260, 630),
          rectangle_history =
            [[], [(0, 0, 10, 10, ''first'')], [(0, 0, 10, 10, ''first''), (5, 5, 15, 15, ''second'')],
             [(5, 5, 15, 15, ''second'')]],
          current_history_index = 3, start_pos = None, current_rect = None, drawing = False\<rparr>"
  by (simp add: run_append run_draw loaded_page_def initial_page_def page_init_def module_globals_def
      add_to_history_def slice_to_def Let_def rect_tuple_def normalized_def QRectF_def
      press_left_def list_remove_def)

lemma hit_test_first:
  "contains_point r p \<Longrightarrow> \<forall>q\<in>set before. \<not> contains_point q p \<Longrightarrow> hit_test (before @ r # after) p = Some r"
  by (induction before) simp_all

lemma hit_test_none: "\<forall>q\<in>set rs. \<not> contains_point q p \<Longrightarrow> hit_test rs p = None"
  by (induction rs) simp_all

text \<open>
  Claim C7, amended. The loop stops at the first rectangle in insertion order that
  contains the point, whatever was drawn after it: a left press on a loaded page hits
  that rectangle, deletes it from the list and commits the new list. If no rectangle
  contains the point, the press starts a draw gesture at the point and changes nothing
  else.
\<close>

theorem press_hits_first_drawn:
  "(contains_point r p \<and> (\<forall>q\<in>set before. \<not> contains_point q p) \<and> image_loaded s
      \<and> rectangles s = before @ r # after \<longrightarrow>
        hit_test (rectangles s) p = Some r
        \<and> eventFilter (MouseButtonPress LeftButton p) s =
            Inr (add_to_history (s\<lparr>rectangles := remove1 r (rectangles s)\<rparr>)))
   \<and> ((\<forall>q\<in>set (rectangles t). \<not> contains_point q p') \<and> image_loaded t \<longrightarrow>
        hit_test (rectangles t) p' = None
        \<and> eventFilter (MouseButtonPress LeftButton p') t =
            Inr (t\<lparr>start_pos := Some p', drawing := True, current_rect := Some (QRectF p' p')\<rparr>))"
  by (auto simp: hit_test_first hit_test_none press_left_def list_remove_def)

theorem press_hits_first_drawn_witness:
  "hit_test (rectangles two_overlapping) (7, 7) = Some (0, 0, 10, 10, ''first'')
   \<and> eventFilter (MouseButtonPress LeftButton (7, 7)) two_overlapping =
        Inr (add_to_history (two_overlapping\<lparr>rectangles := [(5, 5, 15, 15, ''second'')]\<rparr>))
   \<and> hit_test (rectangles two_overlapping) (20, 20) = None
   \<and> eventFilter (MouseButtonPress LeftButton (20, 20)) two_overlapping =
        Inr (two_overlapping\<lparr>start_pos := Some (20, 20), drawing := True,
               current_rect := Some (QRectF (20, 20) (20, 20))\<rparr>)"
  using press_hits_first_drawn [where s = two_overlapping and t = two_overlapping and p = "(7, 7)"
      and p' = "(20, 20)" and r = "(0, 0, 10, 10, ''first'')" and before = "[]"
      and after = "[(5, 5, 15, 15, ''second'')]"]
  by (simp add: two_overlapping_def)

section \<open>Properties of the coordinate conversion\<close>

text \<open>
  Claim C4 asks for a region drawn from (100, 100) to (300, 200) over a 2000 by 1000
  image shown at 1260 by 630 to get the horizontal bounds 158 and 476, the display
  coordinates scaled by original size over display size. The code does not do this.
  Opening the image gives the display size 1260 by 630, and the conversion yields the
  horizontal bounds 126 and 378 and the vertical bounds 31 and 63: it multiplies by the
  display size and divides by the original size, and it divides the horizontal
  coordinates by the original height (index 1 of a pair the code itself comments as
  width, height) and the vertical ones by the original width. All the values here are
  exact in binary floating point as well.
\<close>

theorem conversion_of_scenario:
  "open_image 2000 1000 initial_page = Inr (loaded_page (2000, 1000) (1260, 630))
   \<and> run (draw (100, 100) (300, 200) ''lead'') (loaded_page (2000, 1000) (1260, 630))
        = Inr ((loaded_page (2000, 1000) (1260, 630))
                 \<lparr>rectangles := [(100, 100, 300, 200, ''lead'')],
                  rectangle_history := [[], [(100, 100, 300, 200, ''lead'')]],
                  current_history_index := 1\<rparr>)
   \<and> convert_coordinates (loaded_page (2000, 1000) (1260, 630)) (100, 100, 300, 200, ''lead'')
        = Inr (126, 31, 378, 63)"
proof -
  have a: "\<lfloor>63 / 2 :: real\<rfloor> = 31" by linarith
  have "open_image 2000 1000 initial_page = Inr (loaded_page (2000, 1000) (1260, 630))"
    by (simp add: open_image_def loaded_page_def py_int_def Let_def)
  moreover have "run (draw (100, 100) (300, 200) ''lead'') (loaded_page (2000, 1000) (1260, 630))
        = Inr ((loaded_page (2000, 1000) (1260, 630))
                 \<lparr>rectangles := [(100, 100, 300, 200, ''lead'')],
                  rectangle_history := [[], [(100, 100, 300, 200, ''lead'')]],
                  current_history_index := 1\<rparr>)"
    by (simp add: run_draw loaded_page_def initial_page_def page_init_def module_globals_def
        add_to_history_def slice_to_def Let_def rect_tuple_def normalized_def QRectF_def)
  moreover have "convert_coordinates (loaded_page (2000, 1000) (1260, 630)) (100, 100, 300, 200, ''lead'')
        = Inr (126, 31, 378, 63)"
    by (simp add: loaded_page_def py_int_def convert_coordinates_def a)
  ultimately show ?thesis by simp
qed

section \<open>Properties of the signal extraction\<close>

lemma threshold_binary_inv_foreground:
  "(pix (threshold_binary_inv gray thresh 255) y x = 255) = (pix gray y x \<le> thresh)"
  by (auto simp: threshold_binary_inv_def)

lemma sorted_column_indices: "sorted (column_indices binary x)"
  by (simp add: column_indices_def sorted_wrt_filter)

lemma hd_sorted_Min: "sorted xs \<Longrightarrow> xs \<noteq> [] \<Longrightarrow> hd xs = Min (set xs)"
  by (cases xs) (auto intro!: Min_eqI [symmetric])

lemma last_sorted_Max: "sorted xs \<Longrightarrow> xs \<noteq> [] \<Longrightarrow> last xs = Max (set xs)"
proof (induction xs)
  case Nil
  then show ?case by simp
next
  case (Cons a xs)
  show ?case
  proof (cases "xs = []")
    case True
    then show ?thesis by simp
  next
    case False
    with Cons have l: "last xs = Max (set xs)" by simp
    have "a \<le> Max (set xs)" using Cons.prems False
      by (metis List.finite_set Max_ge_iff empty_iff list.set_sel(1) set_empty sorted_simps(2))
    then show ?thesis using False l by (simp add: max_def)
  qed
qed

lemma middle_row_Min_Max:
  "column_indices binary x \<noteq> [] \<Longrightarrow>
     middle_row (column_indices binary x) =
       (Min (set (column_indices binary x)) + Max (set (column_indices binary x))) div 2"
  by (simp add: middle_row_def hd_sorted_Min last_sorted_Max sorted_column_indices)

lemma lead_columns_eq:
  "lead_columns binary xs (sx, sy) =
     (sx @ map fst (map (lead_point binary) (filter (\<lambda>x. column_indices binary x \<noteq> []) xs)),
      sy @ map snd (map (lead_point binary) (filter (\<lambda>x. column_indices binary x \<noteq> []) xs)))"
proof (induction xs arbitrary: sx sy)
  case Nil
  then show ?case by simp
next
  case (Cons x xs)
  show ?case
  proof (cases "column_indices binary x = []")
    case True
    then show ?thesis using Cons by (simp add: Let_def)
  next
    case False
    then show ?thesis using Cons
      by (simp add: Let_def lead_point_def middle_row_Min_Max)
  qed
qed

lemma zip_fst_snd: "zip (map fst ps) (map snd ps) = ps"
  by (induction ps) auto

lemma digitalize_lead_eq:
  "digitalize_lead binary =
     map (lead_point binary) (filter (\<lambda>x. column_indices binary x \<noteq> []) [0..<cols binary])"
  by (simp add: digitalize_lead_def lead_columns_eq zip_fst_snd del: map_map)

lemma selected_columns_eq:
  "selected_columns binary xs (sx, sy) =
     (sx @ filter (\<lambda>x. column_indices binary x \<noteq> []) xs,
      sy @ map (\<lambda>x. np_mean (column_indices binary x)) (filter (\<lambda>x. column_indices binary x \<noteq> []) xs))"
proof (induction xs arbitrary: sx sy)
  case Nil
  then show ?case by simp
next
  case (Cons x xs)
  then show ?case by (cases "column_indices binary x = []") (simp_all add: Let_def)
qed

lemma digitalize_selected_eq:
  "digitalize_selected binary =
     map (\<lambda>x. (x, np_mean (column_indices binary x)))
       (filter (\<lambda>x. column_indices binary x \<noteq> []) [0..<cols binary])"
  by (simp add: digitalize_selected_def selected_columns_eq zip_map2 zip_same_conv_map)

lemma column_indices_set:
  "set (column_indices binary x) = {y. y < rows binary \<and> pix binary y x = 255}"
  by (auto simp: column_indices_def)

lemma three_pixel_indices: "column_indices three_pixel_column 0 = [0, 1, 8]"
  by (simp add: column_indices_def three_pixel_column_def upt_rec)

lemma three_pixel_columns:
  "filter (\<lambda>x. column_indices three_pixel_column x \<noteq> []) [0..<cols three_pixel_column] = [0]"
proof -
  have "cols three_pixel_column = 1" by (simp add: three_pixel_column_def)
  then show ?thesis by (simp add: three_pixel_indices)
qed

lemma three_pixel_lead: "digitalize_lead three_pixel_column = [(0, 1 / 9)]"
proof -
  have r: "rows three_pixel_column = 9" by (simp add: three_pixel_column_def)
  show ?thesis
    by (simp add: digitalize_lead_eq three_pixel_columns three_pixel_indices
        lead_point_def time_scale_def max_amplitude_def min_amplitude_def r)
qed

text \<open>
  Claim C5, as stated, fails on one of the two digitizers. For a column with foreground
  in rows 0, 1 and 8 the loop of \<^verbatim>\<open>DigitalizeDialog.digitalize_selected\<close> records the
  row 3, the mean of the three indices, where the midpoint of the smallest and the
  largest is 4.
\<close>

theorem dialog_digitizer_uses_mean:
  "digitalize_selected three_pixel_column = [(0, 3)]
   \<and> middle_row (column_indices three_pixel_column 0) = 4"
  by (simp add: digitalize_selected_eq three_pixel_columns three_pixel_indices np_mean_def middle_row_def)

text \<open>
  Claim C5, amended. For every binary mask, \<^verbatim>\<open>ECGAnalysisPage.digitalize_lead\<close> emits
  one entry per column that holds a foreground pixel, in column order, and the row it
  maps to the amplitude is the midpoint of the smallest and the largest foreground row
  of the column, rounded down: \<open>(min + max) div 2\<close>. The loop of
  \<^verbatim>\<open>DigitalizeDialog.digitalize_selected\<close> emits for the same columns the column index
  and the mean of all the foreground rows. The foreground rows of a column are the rows
  whose mask value is 255.
\<close>

theorem lead_uses_midpoint_dialog_uses_mean:
  "digitalize_lead binary =
     map (\<lambda>x. (real x * time_scale,
                max_amplitude - (max_amplitude - min_amplitude) *
                  (real ((Min (set (column_indices binary x)) + Max (set (column_indices binary x))) div 2)
                     / real (rows binary))))
       (filter (\<lambda>x. column_indices binary x \<noteq> []) [0..<cols binary])
   \<and> digitalize_selected binary =
     map (\<lambda>x. (x, real (sum_list (column_indices binary x)) / real (length (column_indices binary x))))
       (filter (\<lambda>x. column_indices binary x \<noteq> []) [0..<cols binary])
   \<and> set (column_indices binary x) = {y. y < rows binary \<and> pix binary y x = 255}"
proof -
  have "lead_point binary = (\<lambda>x. (real x * time_scale,
                max_amplitude - (max_amplitude - min_amplitude) *
                  (real ((Min (set (column_indices binary x)) + Max (set (column_indices binary x))) div 2)
                     / real (rows binary))))"
    by (rule ext) (simp add: lead_point_def)
  then show ?thesis
    using digitalize_lead_eq [of binary] digitalize_selected_eq [of binary] column_indices_set [of binary x]
    by (simp add: np_mean_def)
qed

lemma filter_eq_upt: "filter (\<lambda>y. y = r) [0..<n] = (if r < n then [r] else [])"
  by (induction n) auto

lemma single_column_indices:
  assumes "\<forall>y x'. y < rows binary \<and> x' < cols binary \<longrightarrow> (pix binary y x' = 255) = (y = r \<and> x' = x)"
    and "r < rows binary" and "x' < cols binary"
  shows "column_indices binary x' = (if x' = x then [r] else [])"
proof -
  have "filter (\<lambda>y. pix binary y x' = 255) [0..<rows binary]
          = filter (\<lambda>y. y = r \<and> x' = x) [0..<rows binary]"
    using assms by (intro filter_cong) auto
  also have "\<dots> = (if x' = x then [r] else [])"
    using assms(2) by (simp add: filter_eq_upt)
  finally show ?thesis by (simp add: column_indices_def)
qed

lemma filter_single_upt: "x < n \<Longrightarrow> filter (\<lambda>x'. (if x' = x then [r] else []) \<noteq> []) [0..<n] = [x]"
proof -
  assume "x < n"
  have "filter (\<lambda>x'. (if x' = x then [r] else []) \<noteq> []) [0..<n] = filter (\<lambda>x'. x' = x) [0..<n]"
    by (intro filter_cong) auto
  then show ?thesis using \<open>x < n\<close> by (simp add: filter_eq_upt)
qed

text \<open>
  Claim C6. A mask without a foreground pixel digitizes to the empty sequence. A mask
  whose only foreground pixel is at row \<open>r\<close> and column \<open>c\<close> digitizes, with the
  amplitude range from -1 to 1 and the time scale 0.01 that the code fixes, to the one
  entry \<open>(c * 0.01, 1 - 2 * r / H)\<close>, where \<open>H\<close> is the number of rows.
\<close>

theorem digitizer_reference_postconditions:
  "((\<forall>y x. y < rows binary \<and> x < cols binary \<longrightarrow> pix binary y x \<noteq> 255) \<longrightarrow>
       digitalize_lead binary = [])
   \<and> (r < rows single \<and> c < cols single
       \<and> (\<forall>y x. y < rows single \<and> x < cols single \<longrightarrow> (pix single y x = 255) = (y = r \<and> x = c)) \<longrightarrow>
       max_amplitude = 1 \<and> min_amplitude = - 1 \<and> time_scale = 0.01
       \<and> digitalize_lead single = [(real c * 0.01, 1 - 2 * real r / real (rows single))])"
proof (intro conjI impI)
  assume bg: "\<forall>y x. y < rows binary \<and> x < cols binary \<longrightarrow> pix binary y x \<noteq> 255"
  have "filter (\<lambda>x. column_indices binary x \<noteq> []) [0..<cols binary] = []"
    using bg by (auto simp: column_indices_def filter_empty_conv)
  then show "digitalize_lead binary = []" by (simp add: digitalize_lead_eq)
next
  show "max_amplitude = 1" by (simp add: max_amplitude_def)
  show "min_amplitude = - 1" by (simp add: min_amplitude_def)
  show "time_scale = 0.01" by (simp add: time_scale_def)
next
  assume a: "r < rows single \<and> c < cols single
       \<and> (\<forall>y x. y < rows single \<and> x < cols single \<longrightarrow> (pix single y x = 255) = (y = r \<and> x = c))"
  then have ci: "\<And>x'. x' < cols single \<Longrightarrow> column_indices single x' = (if x' = c then [r] else [])"
    using single_column_indices [of single r c] by blast
  have "filter (\<lambda>x. column_indices single x \<noteq> []) [0..<cols single]
          = filter (\<lambda>x'. (if x' = c then [r] else []) \<noteq> []) [0..<cols single]"
    using ci by (intro filter_cong) auto
  also have "\<dots> = [c]" using a by (simp add: filter_single_upt)
  finally have f: "filter (\<lambda>x. column_indices single x \<noteq> []) [0..<cols single] = [c]" .
  have "column_indices single c = [r]" using ci a by simp
  then show "digitalize_lead single = [(real c * 0.01, 1 - 2 * real r / real (rows single))]"
    by (simp add: digitalize_lead_eq f lead_point_def time_scale_def max_amplitude_def min_amplitude_def)
qed

theorem digitizer_reference_postconditions_witness:
  "digitalize_lead blank_mask = [] \<and> digitalize_lead single_pixel_mask = [(0.02, 0.5)]"
proof -
  have a: "rows blank_mask = 2" "cols blank_mask = 2" "\<And>y x. pix blank_mask y x = 0"
    by (simp_all add: blank_mask_def)
  have b: "rows single_pixel_mask = 4" "cols single_pixel_mask = 3"
    "\<And>y x. pix single_pixel_mask y x = (if y = 1 \<and> x = 2 then 255 else 0)"
    by (simp_all add: single_pixel_mask_def)
  show ?thesis
    using digitizer_reference_postconditions [where binary = blank_mask and single = single_pixel_mask
        and r = 1 and c = 2]
    by (simp add: a b)
qed

lemma column_indices_bound: "y \<in> set (column_indices binary x) \<Longrightarrow> y < rows binary"
  by (simp add: column_indices_def)

lemma lead_point_bounds:
  assumes "column_indices binary x \<noteq> []"
  shows "- 1 < snd (lead_point binary x) \<and> snd (lead_point binary x) \<le> 1"
proof -
  let ?S = "set (column_indices binary x)"
  let ?y = "(Min ?S + Max ?S) div 2"
  have ne: "?S \<noteq> {}" using assms by simp
  have mx: "Max ?S < rows binary"
    using Max_in [OF _ ne] column_indices_bound by blast
  have "Min ?S \<le> Max ?S" using ne by simp
  then have "?y \<le> Max ?S" by linarith
  then have lt: "?y < rows binary" using mx by linarith
  then have pos: "0 < real (rows binary)" by simp
  have "real ?y / real (rows binary) < 1" using lt pos by simp
  moreover have "0 \<le> real ?y / real (rows binary)" by simp
  ultimately show ?thesis
    by (simp add: lead_point_def max_amplitude_def min_amplitude_def)
qed

text \<open>
  Claim C10. For every binary mask, every amplitude that \<^verbatim>\<open>digitalize_lead\<close> emits is
  greater than -1 and at most 1: the row it maps lies between 0 and the number of rows
  minus one.
\<close>

theorem amplitude_in_half_open_interval:
  "\<forall>p\<in>set (digitalize_lead binary). - 1 < snd p \<and> snd p \<le> 1"
  by (auto simp: digitalize_lead_eq lead_point_bounds simp del: One_nat_def)

theorem amplitude_in_half_open_interval_witness:
  "digitalize_lead three_pixel_column = [(0, 1 / 9)] \<and> - 1 < (1 / 9 :: real) \<and> (1 / 9 :: real) \<le> 1"
  using amplitude_in_half_open_interval [of three_pixel_column] three_pixel_lead by simp

section \<open>Properties of the background separation\<close>

lemma saturate_add_0_255: "saturate_add 0 255 = 255" "saturate_add 0 0 = 0"
  by (simp_all add: saturate_add_def)

text \<open>
  Claim C8, as stated, fails on one of the two maskings. For the grey pixel
  (30, 30, 30), whose HSV form lies within the bounds, the masking at the head of
  \<^verbatim>\<open>DigitalizeDialog.digitalize_selected\<close> keeps the colour (30, 30, 30), which is
  neither black nor white; \<^verbatim>\<open>remove_background\<close> turns it black.
\<close>

theorem dialog_mask_keeps_colour:
  "pix (digitalize_selected_result grey_pixel_hsv grey_pixel_img) 0 0 = (30, 30, 30)
   \<and> pix (remove_background grey_pixel_hsv grey_pixel_img) 0 0 = (0, 0, 0)"
  by (simp add: remove_background_def digitalize_selected_result_def inRange_def full_like_def
      bitwise_not_def bitwise_and_mask_def assign_where_def cv_add_def saturate_add_0_255 Let_def
      grey_pixel_img_def grey_pixel_hsv_def)

text \<open>
  Claim C8, amended. \<^verbatim>\<open>ECGAnalysisPage.remove_background\<close> keeps the size of the
  raster and is a per-pixel two-level transform: a pixel whose HSV form lies within
  hue 0 to 180, saturation 0 to 255 and value 0 to 220 becomes pure black, every other
  pixel pure white. The masking of \<^verbatim>\<open>DigitalizeDialog.digitalize_selected\<close> turns the
  pixels outside these bounds white and leaves the pixels inside them as they are.
\<close>

theorem separation_per_path:
  "rows (remove_background hsv img) = rows img \<and> cols (remove_background hsv img) = cols img
   \<and> pix (remove_background hsv img) y x =
       (case pix hsv y x of (hh, ss, vv) \<Rightarrow>
          if 0 \<le> hh \<and> hh \<le> 180 \<and> 0 \<le> ss \<and> ss \<le> 255 \<and> 0 \<le> vv \<and> vv \<le> 220
          then (0, 0, 0) else (255, 255, 255))
   \<and> pix (digitalize_selected_result hsv img) y x =
       (case pix hsv y x of (hh, ss, vv) \<Rightarrow>
          if 0 \<le> hh \<and> hh \<le> 180 \<and> 0 \<le> ss \<and> ss \<le> 255 \<and> 0 \<le> vv \<and> vv \<le> 220
          then pix img y x else (255, 255, 255))"
  by (simp add: remove_background_def digitalize_selected_result_def inRange_def full_like_def
      bitwise_not_def bitwise_and_mask_def assign_where_def cv_add_def saturate_add_0_255 Let_def
      split: prod.splits)

section \<open>Properties of the export file names\<close>





























end
